theory Spec2Isabelle
  imports Complex_Main "HOL-Library.Multiset"
begin

section \<open>Data model\<close>

text \<open>
  The program is \<^verbatim>\<open>src/ai_study_app.py\<close>: a task store, a scheduler that spreads each
  task's remaining hours over the days up to its due date, and a countdown thread that
  awards points.

  Modelling conventions, used throughout:
  \<^item> A \<^verbatim>\<open>datetime.date\<close> is its day number (\<^verbatim>\<open>date.toordinal()\<close>), an \<open>int\<close>:
    the source only subtracts dates (\<^verbatim>\<open>.days\<close>), compares them and adds one day.
    The finite range of \<^verbatim>\<open>datetime.date\<close> (years 1 to 9999) is not modelled.
    A task's \<^verbatim>\<open>due_date\<close> is a \<^verbatim>\<open>datetime\<close> at midnight (it comes from
    \<^verbatim>\<open>strptime(..., "%Y-%m-%d")\<close>), so it is modelled by its date.
  \<^item> A Python \<^verbatim>\<open>float\<close> is a \<open>real\<close>: arithmetic is exact, and rounding, infinities
    and NaN are not modelled.
  \<^item> An element of \<^verbatim>\<open>self.schedule\<close> is the pair
    \<^verbatim>\<open>(current_date.strftime("%Y-%m-%d"), f"{task.name}: {hours_today:.2f}h")\<close>.
    The model keeps the three values the two strings are printed from: the date, the task
    name and \<^verbatim>\<open>hours_today\<close>.
\<close>

type_synonym date = int

record task =
  name :: string
  hours :: real
  due_date :: date
  completed_hours :: real

definition Task :: "string \<Rightarrow> real \<Rightarrow> date \<Rightarrow> task" where
  "Task n h d = \<lparr>name = n, hours = h, due_date = d, completed_hours = 0\<rparr>"

definition remaining_hours :: "task \<Rightarrow> real" where
  "remaining_hours t = max (hours t - completed_hours t) 0"

record schedule_entry =
  entry_date :: date
  task_name :: string
  allocated_hours :: real

section \<open>The scheduler: the loops of \<^verbatim>\<open>generate_schedule\<close>\<close>

text \<open>
  The inner loop
  \<^verbatim>\<open>while current_date <= task.due_date.date(): ...; current_date += timedelta(days=1)\<close>.
  It appends one entry per iteration to \<^verbatim>\<open>self.schedule\<close>.
\<close>

function day_loop :: "task \<Rightarrow> real \<Rightarrow> real \<Rightarrow> date \<Rightarrow> schedule_entry list \<Rightarrow> schedule_entry list" where
  "day_loop t daily_allocation daily_hours current_date sched =
     (if current_date \<le> due_date t
      then (let hours_today = min daily_allocation daily_hours
            in day_loop t daily_allocation daily_hours (current_date + 1)
                 (sched @ [\<lparr>entry_date = current_date, task_name = name t,
                            allocated_hours = hours_today\<rparr>]))
      else sched)"
  by pat_completeness auto
termination
  by (relation "measure (\<lambda>(t, a, h, cur, sched). nat (due_date t + 1 - cur))") auto

declare day_loop.simps [simp del]

text \<open>
  The body of \<^verbatim>\<open>for task in tasks_sorted\<close>: the local variables
  \<^verbatim>\<open>total_days\<close> and \<^verbatim>\<open>daily_allocation\<close>, then the inner loop from
  \<^verbatim>\<open>current_date = today\<close>.
\<close>

definition total_days :: "date \<Rightarrow> task \<Rightarrow> int" where
  "total_days today t =
     (let total_days = due_date t - today + 1
      in if total_days \<le> 0 then 1 else total_days)"

definition daily_allocation :: "date \<Rightarrow> task \<Rightarrow> real" where
  "daily_allocation today t = remaining_hours t / of_int (total_days today t)"

definition schedule_task :: "date \<Rightarrow> real \<Rightarrow> task \<Rightarrow> schedule_entry list \<Rightarrow> schedule_entry list" where
  "schedule_task today daily_capacity t sched =
     day_loop t (daily_allocation today t) daily_capacity today sched"

text \<open>The entries one task contributes: the loop body run on an empty list.\<close>

definition task_entries :: "date \<Rightarrow> real \<Rightarrow> task \<Rightarrow> schedule_entry list" where
  "task_entries today daily_capacity t = schedule_task today daily_capacity t []"

text \<open>\<^verbatim>\<open>sorted(self.tasks, key=lambda t: t.due_date)\<close>: Python's sort is stable.\<close>

definition tasks_sorted :: "task list \<Rightarrow> task list" where
  "tasks_sorted ts = sort_key due_date ts"

text \<open>
  The scheduler as the specification names it, \<^verbatim>\<open>generate(tasks, daily_capacity, today)\<close>:
  the schedule list is cleared, the tasks are sorted, and the loop runs over them.
\<close>

definition generate :: "task list \<Rightarrow> real \<Rightarrow> date \<Rightarrow> schedule_entry list" where
  "generate ts daily_capacity today =
     fold (schedule_task today daily_capacity) (tasks_sorted ts) []"

text \<open>The hours allocated on one date, summed over all entries of a schedule.\<close>

definition hours_on :: "date \<Rightarrow> schedule_entry list \<Rightarrow> real" where
  "hours_on d sched = sum_list (map allocated_hours (filter (\<lambda>e. entry_date e = d) sched))"

section \<open>Grouping the schedule for display\<close>

text \<open>
  \<^verbatim>\<open>grouped.setdefault(date_str, []).append(desc)\<close> on an insertion-ordered dictionary,
  kept as an association list with distinct keys. The description \<^verbatim>\<open>desc\<close> is printed
  from the task name and the hours.
\<close>

type_synonym desc = "string \<times> real"

fun setdefault_append :: "date \<Rightarrow> desc \<Rightarrow> (date \<times> desc list) list \<Rightarrow> (date \<times> desc list) list" where
  "setdefault_append k v [] = [(k, [v])]"
| "setdefault_append k v ((k', vs) # g) =
     (if k' = k then (k', vs @ [v]) # g else (k', vs) # setdefault_append k v g)"

definition desc_of :: "schedule_entry \<Rightarrow> desc" where
  "desc_of e = (task_name e, allocated_hours e)"

definition grouped :: "schedule_entry list \<Rightarrow> (date \<times> desc list) list" where
  "grouped sched = fold (\<lambda>e g. setdefault_append (entry_date e) (desc_of e) g) sched []"

text \<open>
  \<^verbatim>\<open>for date_str in sorted(grouped.keys()): ... for d in grouped[date_str]: ...\<close>.
  The keys are the strings \<^verbatim>\<open>YYYY-MM-DD\<close>, whose order is the order of the dates (for
  four-digit years). A key drawn from \<^verbatim>\<open>grouped.keys()\<close> is always present, so the
  lookup cannot raise \<^verbatim>\<open>KeyError\<close>; the model gives that case no group.
\<close>

definition date_groups :: "schedule_entry list \<Rightarrow> (date \<times> desc list) list" where
  "date_groups sched =
     (let g = grouped sched
      in concat (map (\<lambda>k. case map_of g k of None \<Rightarrow> [] | Some ds \<Rightarrow> [(k, ds)])
                     (sort (map fst g))))"

datatype schedule_panel = Panel_blank | Panel_no_plan | Panel_plan "(date \<times> desc list) list"

definition render :: "schedule_entry list \<Rightarrow> schedule_panel" where
  "render sched = (if sched = [] then Panel_no_plan else Panel_plan (date_groups sched))"

section \<open>The application state and its operations\<close>

text \<open>
  The library functions \<^verbatim>\<open>float\<close>, \<^verbatim>\<open>int\<close> and
  \<^verbatim>\<open>datetime.strptime(_, "%Y-%m-%d")\<close> are parameters of the model: each maps a string
  to a value, or to \<open>None\<close> where Python raises \<^verbatim>\<open>ValueError\<close>.
\<close>

record builtins =
  py_float :: "string \<Rightarrow> real option"
  py_int :: "string \<Rightarrow> int option"
  strptime :: "string \<Rightarrow> date option"

text \<open>\<^verbatim>\<open>str.strip()\<close>, on strings of code points below 256.\<close>

definition isspace :: "char \<Rightarrow> bool" where
  "isspace c \<longleftrightarrow> c \<in> set [CHR 0x09, CHR 0x0A, CHR 0x0B, CHR 0x0C, CHR 0x0D, CHR 0x1C, CHR 0x1D,
                          CHR 0x1E, CHR 0x1F, CHR 0x20, CHR 0x85, CHR 0xA0]"

definition strip :: "string \<Rightarrow> string" where
  "strip s = rev (dropWhile isspace (rev (dropWhile isspace s)))"

text \<open>The message boxes the operations show, and the two labels of the timer.\<close>

datatype message =
    Warning_incomplete
  | Warning_hours_format
  | Warning_date_format
  | Info_add_tasks_first
  | Error_daily_hours
  | Info_already_focusing
  | Error_minutes

datatype timer_text = Label_blank | Label_remaining int int | Label_done

text \<open>
  The fields of \<^verbatim>\<open>AiStudyApp\<close>, with the widgets the operations read and write.
  A row of the task list box is printed from a task and is modelled by that task.
  \<^verbatim>\<open>focus_thread\<close> is the index of the latest thread in the list of all threads started.
\<close>

record app =
  tasks :: "task list"
  daily_hours :: "real option"
  schedule :: "schedule_entry list"
  focus_thread :: "nat option"
  timer_running :: bool
  points :: int
  task_name_var :: string
  task_hours_var :: string
  task_due_var :: string
  task_listbox :: "task list"
  schedule_text :: schedule_panel
  points_label :: int
  timer_label :: timer_text

definition initial_app :: app where
  "initial_app = \<lparr>tasks = [], daily_hours = None, schedule = [], focus_thread = None,
     timer_running = False, points = 0, task_name_var = [], task_hours_var = [],
     task_due_var = [], task_listbox = [], schedule_text = Panel_blank, points_label = 0,
     timer_label = Label_blank\<rparr>"

subsection \<open>\<^verbatim>\<open>add_task\<close>\<close>

definition add_task :: "builtins \<Rightarrow> app \<Rightarrow> message option \<times> app" where
  "add_task B s =
     (let nm = strip (task_name_var s);
          hours_str = strip (task_hours_var s);
          due_str = strip (task_due_var s)
      in if nm = [] \<or> hours_str = [] \<or> due_str = [] then (Some Warning_incomplete, s)
         else case py_float B hours_str of
                None \<Rightarrow> (Some Warning_hours_format, s)
              | Some h \<Rightarrow>
                  (case strptime B due_str of
                     None \<Rightarrow> (Some Warning_date_format, s)
                   | Some d \<Rightarrow>
                       (let t = Task nm h d
                        in (None, s\<lparr>tasks := tasks s @ [t],
                                     task_listbox := task_listbox s @ [t],
                                     task_name_var := [], task_hours_var := [],
                                     task_due_var := []\<rparr>))))"

subsection \<open>\<^verbatim>\<open>generate_schedule\<close>\<close>

text \<open>
  \<open>answer\<close> is what the dialog \<^verbatim>\<open>askstring\<close> returns if it is shown (\<open>None\<close> when the
  user cancels), \<open>today\<close> the reading of \<^verbatim>\<open>datetime.today().date()\<close>.
\<close>

definition fill_schedule :: "real \<Rightarrow> date \<Rightarrow> app \<Rightarrow> app" where
  "fill_schedule h today s =
     (let sched = generate (tasks s) h today
      in s\<lparr>schedule := sched, schedule_text := render sched\<rparr>)"

definition generate_schedule :: "builtins \<Rightarrow> string option \<Rightarrow> date \<Rightarrow> app \<Rightarrow> message option \<times> app" where
  "generate_schedule B answer today s =
     (if tasks s = [] then (Some Info_add_tasks_first, s)
      else case daily_hours s of
             Some h \<Rightarrow> (None, fill_schedule h today s)
           | None \<Rightarrow>
               (case answer of
                  None \<Rightarrow> (None, s)
                | Some a \<Rightarrow>
                    (case py_float B a of
                       None \<Rightarrow> (Some Error_daily_hours, s\<lparr>daily_hours := None\<rparr>)
                     | Some h \<Rightarrow>
                         if h \<le> 0 then (Some Error_daily_hours, s\<lparr>daily_hours := None\<rparr>)
                         else (None, fill_schedule h today (s\<lparr>daily_hours := Some h\<rparr>)))))"

subsection \<open>\<^verbatim>\<open>_countdown\<close>, one statement at a time\<close>

text \<open>
  The countdown runs in its own thread, so it is modelled by the statement it executes
  next. A step takes the reading of \<^verbatim>\<open>time.time()\<close> that the statement makes, if it
  makes one. \<^verbatim>\<open>end_time\<close> is not read before \<open>At_init\<close> has assigned it.
\<close>

datatype location =
    At_init | At_while | At_body | At_sleep | At_if | At_award | At_reset | At_done

record countdown =
  seconds :: int
  end_time :: real
  pc :: location

definition new_countdown :: "int \<Rightarrow> countdown" where
  "new_countdown secs = \<lparr>seconds = secs, end_time = 0, pc = At_init\<rparr>"

text \<open>Python's \<^verbatim>\<open>int(x)\<close> on a float truncates towards zero.\<close>

definition trunc :: "real \<Rightarrow> int" where
  "trunc x = (if 0 \<le> x then \<lfloor>x\<rfloor> else \<lceil>x\<rceil>)"

definition countdown_step :: "real \<Rightarrow> app \<times> countdown \<Rightarrow> app \<times> countdown" where
  "countdown_step now c =
     (case c of (s, th) \<Rightarrow>
        (case pc th of
           At_init \<Rightarrow> (s, th\<lparr>end_time := now + of_int (seconds th), pc := At_while\<rparr>)
         | At_while \<Rightarrow>
             (s, th\<lparr>pc := (if timer_running s \<and> now < end_time th then At_body else At_if)\<rparr>)
         | At_body \<Rightarrow>
             (let remaining = trunc (end_time th - now)
              in (s\<lparr>timer_label := Label_remaining (remaining div 60) (remaining mod 60)\<rparr>,
                  th\<lparr>pc := At_sleep\<rparr>))
         | At_sleep \<Rightarrow> (s, th\<lparr>pc := At_while\<rparr>)
         | At_if \<Rightarrow> (s, th\<lparr>pc := (if timer_running s then At_award else At_reset)\<rparr>)
         | At_award \<Rightarrow>
             (s\<lparr>timer_label := Label_done, points := points s + 10,
                points_label := points s + 10\<rparr>,
              th\<lparr>pc := At_reset\<rparr>)
         | At_reset \<Rightarrow> (s\<lparr>timer_running := False\<rparr>, th\<lparr>pc := At_done\<rparr>)
         | At_done \<Rightarrow> (s, th)))"





subsection \<open>\<^verbatim>\<open>start_focus_session\<close>\<close>

type_synonym system = "app \<times> countdown list"

definition start_focus_session :: "builtins \<Rightarrow> string option \<Rightarrow> system \<Rightarrow> message option \<times> system" where
  "start_focus_session B answer c =
     (case c of (s, ths) \<Rightarrow>
        if timer_running s then (Some Info_already_focusing, (s, ths))
        else case answer of
               None \<Rightarrow> (None, (s, ths))
             | Some a \<Rightarrow>
                 (case py_int B a of
                    None \<Rightarrow> (Some Error_minutes, (s, ths))
                  | Some minutes \<Rightarrow>
                      if minutes \<le> 0 then (Some Error_minutes, (s, ths))
                      else (let secs = minutes * 60
                            in (None, (s\<lparr>timer_running := True,
                                         focus_thread := Some (length ths)\<rparr>,
                                       ths @ [new_countdown secs])))))"

subsection \<open>The whole program: user actions and thread steps, interleaved\<close>

datatype event =
    Enter_fields string string string
  | Add_task
  | Generate_schedule "string option" date
  | Start_focus_session "string option"
  | Countdown_step nat real

fun apply_event :: "builtins \<Rightarrow> event \<Rightarrow> system \<Rightarrow> system" where
  "apply_event B (Enter_fields a b c) (s, ths) =
     (s\<lparr>task_name_var := a, task_hours_var := b, task_due_var := c\<rparr>, ths)"
| "apply_event B Add_task (s, ths) = (snd (add_task B s), ths)"
| "apply_event B (Generate_schedule answer today) (s, ths) =
     (snd (generate_schedule B answer today s), ths)"
| "apply_event B (Start_focus_session answer) (s, ths) =
     snd (start_focus_session B answer (s, ths))"
| "apply_event B (Countdown_step i now) (s, ths) =
     (if i < length ths
      then (case countdown_step now (s, ths ! i) of (s', th') \<Rightarrow> (s', ths[i := th']))
      else (s, ths))"

definition run :: "builtins \<Rightarrow> event list \<Rightarrow> system \<Rightarrow> system" where
  "run B evs c = fold (apply_event B) evs c"

definition initial :: system where
  "initial = (initial_app, [])"

section \<open>Example inputs\<close>

text \<open>
  Day numbers: 2024-01-01 is 738886, 2024-01-02 is 738887, 2024-01-04 is 738889 and
  2024-01-10 is 738895.
\<close>

definition essay :: task where
  "essay = Task ''Essay'' 6 738889"

definition maths :: task where
  "maths = Task ''Maths'' 4 738887"

definition history :: task where
  "history = Task ''History'' 6 738889"

text \<open>
  The values of \<^verbatim>\<open>float\<close>, \<^verbatim>\<open>int\<close> and \<^verbatim>\<open>strptime\<close> on the strings of the
  examples: \<^verbatim>\<open>float("-5") = -5.0\<close>, \<^verbatim>\<open>float("2") = 2.0\<close>, \<^verbatim>\<open>float("6") = 6.0\<close>,
  \<^verbatim>\<open>int("25") = 25\<close>, and \<^verbatim>\<open>strptime("2024-01-04", "%Y-%m-%d")\<close> is midnight of
  2024-01-04. The string \<^verbatim>\<open>"six"\<close> is rejected by \<^verbatim>\<open>float\<close>. Only these values are
  used.
\<close>

definition example_builtins :: builtins where
  "example_builtins =
     \<lparr>py_float = (\<lambda>x. if x = ''-5'' then Some (-5) else if x = ''2'' then Some 2
                         else if x = ''6'' then Some 6 else None),
      py_int = (\<lambda>x. if x = ''25'' then Some 25 else None),
      strptime = (\<lambda>x. if x = ''2024-01-04'' then Some 738889 else None)\<rparr>"

text \<open>The initial state with the three entry fields filled in.\<close>

definition form :: "string \<Rightarrow> string \<Rightarrow> string \<Rightarrow> app" where
  "form a b c = initial_app\<lparr>task_name_var := a, task_hours_var := b, task_due_var := c\<rparr>"

text \<open>
  The program right after a focus session of 25 minutes has been started, and the
  countdown of that session (started when the clock read 0) at the head of its loop and
  at its last statement.
\<close>

definition focusing :: system where
  "focusing = snd (start_focus_session example_builtins (Some ''25'') initial)"



section \<open>Invariants of the whole program\<close>



text \<open>Tasks are never removed, so a schedule exists only once there are tasks.\<close>

definition no_tasks_no_schedule :: "system \<Rightarrow> bool" where
  "no_tasks_no_schedule c \<longleftrightarrow> (tasks (fst c) = [] \<longrightarrow> schedule (fst c) = [])"






text \<open>
  What the dictionary \<^verbatim>\<open>grouped\<close> holds once the entries \<open>sched\<close> have been inserted:
  one key per date, mapped to the descriptions of that date's entries in their order.
\<close>

definition group_inv :: "schedule_entry list \<Rightarrow> (date \<times> desc list) list \<Rightarrow> bool" where
  "group_inv sched g \<longleftrightarrow>
     distinct (map fst g) \<and> set (map fst g) = set (map entry_date sched) \<and>
     (\<forall>k. map_of g k =
        (if k \<in> set (map entry_date sched)
         then Some (map desc_of (filter (\<lambda>e. entry_date e = k) sched)) else None))"

section \<open>The scheduler's loops in closed form\<close>

lemma day_loop_eq:
  "day_loop t a h cur sched =
     sched @ map (\<lambda>d. \<lparr>entry_date = d, task_name = name t, allocated_hours = min a h\<rparr>)
               [cur..due_date t]"
proof (induction t a h cur sched rule: day_loop.induct)
  case (1 t a h cur sched)
  show ?case
  proof (cases "cur \<le> due_date t")
    case True
    then have "[cur..due_date t] = cur # [cur + 1..due_date t]"
      by (simp add: upto_rec1)
    with True 1 show ?thesis
      by (subst day_loop.simps) (simp add: Let_def)
  next
    case False
    then show ?thesis by (subst day_loop.simps) simp
  qed
qed

lemma task_entries_eq:
  "task_entries today cap t =
     map (\<lambda>d. \<lparr>entry_date = d, task_name = name t,
                allocated_hours = min (daily_allocation today t) cap\<rparr>) [today..due_date t]"
  by (simp add: task_entries_def schedule_task_def day_loop_eq)

lemma schedule_task_append:
  "schedule_task today cap t sched = sched @ task_entries today cap t"
  by (simp add: schedule_task_def task_entries_def day_loop_eq)

lemma fold_schedule_task:
  "fold (schedule_task today cap) ts sched = sched @ concat (map (task_entries today cap) ts)"
  by (induction ts arbitrary: sched) (simp_all add: schedule_task_append)

lemma generate_concat:
  "generate ts cap today = concat (map (task_entries today cap) (tasks_sorted ts))"
  by (simp add: generate_def fold_schedule_task)

lemma generate_single: "generate [t] cap today = task_entries today cap t"
  by (simp add: generate_concat tasks_sorted_def)

lemma total_days_pos: "0 < total_days today t"
  by (simp add: total_days_def Let_def)

lemma total_days_future: "today \<le> due_date t \<Longrightarrow> total_days today t = due_date t - today + 1"
  by (simp add: total_days_def Let_def)

lemma sum_task_entries:
  "sum_list (map allocated_hours (task_entries today cap t)) =
     of_nat (nat (due_date t - today + 1)) * min (daily_allocation today t) cap"
  by (simp add: task_entries_eq comp_def sum_list_triv)

lemma essay_entries:
  "task_entries 738886 cap essay =
     map (\<lambda>d. \<lparr>entry_date = d, task_name = ''Essay'', allocated_hours = min (3 / 2) cap\<rparr>)
       [738886, 738887, 738888, 738889]"
proof -
  have u: "[738886..738889] = [738886, 738887, 738888, 738889 :: int]"
    by (simp add: upto_rec1)
  have a: "daily_allocation 738886 essay = 3 / 2"
    by (simp add: daily_allocation_def total_days_def remaining_hours_def essay_def Task_def)
  show ?thesis
    by (simp add: task_entries_eq a) (simp add: essay_def Task_def u)
qed

section \<open>Claims about the scheduler\<close>

text \<open>
  C1. The claim: a task whose due date is strictly before today gets exactly one entry,
  dated today, of \<open>min(remaining_hours, daily_capacity)\<close> hours. The code computes
  \<^verbatim>\<open>total_days = 1\<close> for such a task (its comment: "allocate all work today"), but the
  loop \<^verbatim>\<open>while current_date <= task.due_date.date()\<close> starts at today and so never runs:
  an overdue task gets no entry at all, and the loop body leaves the schedule as it was.
  With today 2024-01-10, capacity 2 and the Essay task due 2024-01-04 as the only task,
  the schedule is empty and the panel shows the text for "nothing scheduled".
\<close>

theorem overdue_task_gets_no_entry:
  "due_date t < today \<Longrightarrow>
     task_entries today cap t = [] \<and> schedule_task today cap t sched = sched"
  by (simp add: schedule_task_append task_entries_eq)

theorem overdue_task_gets_no_entry_witness:
  "due_date essay < 738895 \<and> task_entries 738895 2 essay = [] \<and>
   generate [essay] 2 738895 = [] \<and>
   generate_schedule example_builtins None 738895
       (initial_app\<lparr>tasks := [essay], daily_hours := Some 2\<rparr>) =
     (None, initial_app\<lparr>tasks := [essay], daily_hours := Some 2, schedule := [],
                         schedule_text := Panel_no_plan\<rparr>)"
  using overdue_task_gets_no_entry [of essay 738895 2 "[]"]
  by (simp add: essay_def Task_def generate_def tasks_sorted_def generate_schedule_def
      fill_schedule_def render_def initial_app_def)

text \<open>
  C2. For a task \<open>t\<close> of the task list that is due \<open>N \<ge> 0\<close> days after today, with a
  daily capacity of at least \<open>remaining_hours t / (N + 1)\<close>: the schedule is the entries of
  the tasks sorted before \<open>t\<close>, then the entries of \<open>t\<close>, then those of the tasks sorted
  after it; the entries of \<open>t\<close> are one per date from today to the due date, each of
  \<open>remaining_hours t / (N + 1)\<close> hours; there are \<open>N + 1\<close> of them and their hours sum to
  \<open>remaining_hours t\<close> (exactly, in real arithmetic). The example: today 2024-01-01, the
  task Essay of 6 hours due 2024-01-04 and capacity 2 give four entries of 1.5 hours,
  summing to 6.
\<close>

theorem even_split_within_capacity:
  "(t \<in> set ts \<and> due_date t = today + int N \<and> remaining_hours t / real (N + 1) \<le> C \<longrightarrow>
      (\<exists>pre post. tasks_sorted ts = pre @ t # post \<and>
         generate ts C today =
           concat (map (task_entries today C) pre) @ task_entries today C t @
           concat (map (task_entries today C) post)) \<and>
      task_entries today C t =
        map (\<lambda>d. \<lparr>entry_date = d, task_name = name t,
                   allocated_hours = remaining_hours t / real (N + 1)\<rparr>) [today..due_date t] \<and>
      length (task_entries today C t) = N + 1 \<and>
      sum_list (map allocated_hours (task_entries today C t)) = remaining_hours t) \<and>
   generate [essay] 2 738886 =
     [\<lparr>entry_date = 738886, task_name = ''Essay'', allocated_hours = 3 / 2\<rparr>,
      \<lparr>entry_date = 738887, task_name = ''Essay'', allocated_hours = 3 / 2\<rparr>,
      \<lparr>entry_date = 738888, task_name = ''Essay'', allocated_hours = 3 / 2\<rparr>,
      \<lparr>entry_date = 738889, task_name = ''Essay'', allocated_hours = 3 / 2\<rparr>] \<and>
   sum_list (map allocated_hours (generate [essay] 2 738886)) = 6"
proof (intro conjI impI)
  assume h: "t \<in> set ts \<and> due_date t = today + int N \<and> remaining_hours t / real (N + 1) \<le> C"
  then have "t \<in> set (tasks_sorted ts)" by (simp add: tasks_sorted_def)
  then obtain pre post where sp: "tasks_sorted ts = pre @ t # post"
    by (auto simp: in_set_conv_decomp)
  then show "\<exists>pre post. tasks_sorted ts = pre @ t # post \<and>
         generate ts C today =
           concat (map (task_entries today C) pre) @ task_entries today C t @
           concat (map (task_entries today C) post)"
    by (auto simp: generate_concat)
  from h have td: "total_days today t = int N + 1"
    by (simp add: total_days_def Let_def)
  then have da: "daily_allocation today t = remaining_hours t / real (N + 1)"
    by (simp add: daily_allocation_def add.commute)
  with h have m: "min (daily_allocation today t) C = remaining_hours t / real (N + 1)"
    by simp
  show "task_entries today C t =
        map (\<lambda>d. \<lparr>entry_date = d, task_name = name t,
                   allocated_hours = remaining_hours t / real (N + 1)\<rparr>) [today..due_date t]"
    by (simp add: task_entries_eq m)
  from h show "length (task_entries today C t) = N + 1"
    by (simp add: task_entries_eq)
  from h have n: "nat (due_date t - today + 1) = N + 1" by simp
  have "sum_list (map allocated_hours (task_entries today C t)) =
          real (N + 1) * (remaining_hours t / real (N + 1))"
    by (simp only: sum_task_entries m n)
  then show "sum_list (map allocated_hours (task_entries today C t)) = remaining_hours t"
    by simp
next
  show "generate [essay] 2 738886 =
     [\<lparr>entry_date = 738886, task_name = ''Essay'', allocated_hours = 3 / 2\<rparr>,
      \<lparr>entry_date = 738887, task_name = ''Essay'', allocated_hours = 3 / 2\<rparr>,
      \<lparr>entry_date = 738888, task_name = ''Essay'', allocated_hours = 3 / 2\<rparr>,
      \<lparr>entry_date = 738889, task_name = ''Essay'', allocated_hours = 3 / 2\<rparr>]"
    by (simp add: generate_single essay_entries)
  show "sum_list (map allocated_hours (generate [essay] 2 738886)) = 6"
    by (simp add: generate_single essay_entries)
qed

theorem even_split_within_capacity_witness:
  "essay \<in> set [essay, maths] \<and> due_date essay = 738886 + int 3 \<and>
   remaining_hours essay / real (3 + 1) \<le> 2 \<and>
   length (task_entries 738886 2 essay) = 3 + 1 \<and>
   sum_list (map allocated_hours (task_entries 738886 2 essay)) = remaining_hours essay"
  using even_split_within_capacity [of essay "[essay, maths]" 738886 3 2]
  by (simp add: essay_def Task_def remaining_hours_def)

lemma entry_hours_capped:
  "e \<in> set (task_entries today C t) \<Longrightarrow> allocated_hours e = min (daily_allocation today t) C"
  by (auto simp: task_entries_eq)

lemma generate_entry_capped:
  "e \<in> set (generate ts C today) \<Longrightarrow> allocated_hours e \<le> C"
  by (auto simp: generate_concat task_entries_eq)

text \<open>
  C3. Every entry of the schedule has \<open>min(daily_allocation, daily_capacity)\<close> hours, so
  none exceeds the daily capacity. Where the cap binds for a task that is not overdue, its
  entries sum to \<open>total_days * daily_capacity\<close>, strictly less than its remaining hours:
  nothing tops the total up. The example: the Essay task (6 hours over four days) with
  capacity 1 gets 1 hour on each of the four days, 4 hours in all.
\<close>

theorem entries_capped_not_topped_up:
  "(\<forall>e \<in> set (generate ts C today). allocated_hours e \<le> C) \<and>
   generate ts C today = concat (map (task_entries today C) (tasks_sorted ts)) \<and>
   (\<forall>e \<in> set (task_entries today C t). allocated_hours e = min (daily_allocation today t) C) \<and>
   (today \<le> due_date t \<and> C < daily_allocation today t \<longrightarrow>
      sum_list (map allocated_hours (task_entries today C t)) = of_int (total_days today t) * C \<and>
      sum_list (map allocated_hours (task_entries today C t)) < remaining_hours t) \<and>
   generate [essay] 1 738886 =
     [\<lparr>entry_date = 738886, task_name = ''Essay'', allocated_hours = 1\<rparr>,
      \<lparr>entry_date = 738887, task_name = ''Essay'', allocated_hours = 1\<rparr>,
      \<lparr>entry_date = 738888, task_name = ''Essay'', allocated_hours = 1\<rparr>,
      \<lparr>entry_date = 738889, task_name = ''Essay'', allocated_hours = 1\<rparr>] \<and>
   sum_list (map allocated_hours (generate [essay] 1 738886)) = 4 \<and>
   remaining_hours essay = 6"
proof (intro conjI impI ballI)
  fix e assume "e \<in> set (generate ts C today)"
  then show "allocated_hours e \<le> C" by (rule generate_entry_capped)
next
  show "generate ts C today = concat (map (task_entries today C) (tasks_sorted ts))"
    by (rule generate_concat)
next
  fix e assume "e \<in> set (task_entries today C t)"
  then show "allocated_hours e = min (daily_allocation today t) C" by (rule entry_hours_capped)
next
  assume h: "today \<le> due_date t \<and> C < daily_allocation today t"
  then have td: "total_days today t = due_date t - today + 1"
    by (simp add: total_days_future)
  from h have n: "real (nat (due_date t - today + 1)) = of_int (total_days today t)"
    by (simp add: td)
  from h have m: "min (daily_allocation today t) C = C" by simp
  show s: "sum_list (map allocated_hours (task_entries today C t)) = of_int (total_days today t) * C"
    by (simp only: sum_task_entries m n)
  have p: "0 < (of_int (total_days today t) :: real)"
    using total_days_pos [of today t] by simp
  from h have "C < remaining_hours t / of_int (total_days today t)"
    by (simp add: daily_allocation_def)
  with p have "of_int (total_days today t) * C < remaining_hours t"
    by (simp add: pos_less_divide_eq mult.commute)
  with s show "sum_list (map allocated_hours (task_entries today C t)) < remaining_hours t"
    by simp
next
  show "generate [essay] 1 738886 =
     [\<lparr>entry_date = 738886, task_name = ''Essay'', allocated_hours = 1\<rparr>,
      \<lparr>entry_date = 738887, task_name = ''Essay'', allocated_hours = 1\<rparr>,
      \<lparr>entry_date = 738888, task_name = ''Essay'', allocated_hours = 1\<rparr>,
      \<lparr>entry_date = 738889, task_name = ''Essay'', allocated_hours = 1\<rparr>]"
    by (simp add: generate_single essay_entries)
  show "sum_list (map allocated_hours (generate [essay] 1 738886)) = 4"
    by (simp add: generate_single essay_entries)
  show "remaining_hours essay = 6"
    by (simp add: essay_def Task_def remaining_hours_def)
qed

theorem entries_capped_not_topped_up_witness:
  "738886 \<le> due_date essay \<and> 1 < daily_allocation 738886 essay \<and>
   sum_list (map allocated_hours (task_entries 738886 1 essay)) = of_int (total_days 738886 essay) * 1 \<and>
   sum_list (map allocated_hours (task_entries 738886 1 essay)) < remaining_hours essay \<and>
   \<lparr>entry_date = 738886, task_name = ''Maths'', allocated_hours = 1\<rparr>
      \<in> set (generate [essay, maths] 1 738886) \<and>
   allocated_hours \<lparr>entry_date = 738886, task_name = ''Maths'', allocated_hours = 1\<rparr> \<le> (1::real)"
  using entries_capped_not_topped_up [of "[essay, maths]" 1 738886 essay]
  by (simp add: essay_def Task_def remaining_hours_def daily_allocation_def total_days_def
      generate_concat tasks_sorted_def maths_def task_entries_eq upto_rec1)

text \<open>
  C4. The hours allocated on one date, summed over the tasks scheduled that day, can
  exceed the daily capacity: each task is capped on its own. With today 2024-01-01,
  capacity 2 and two tasks of 6 hours due 2024-01-04, each task gets 1.5 hours on
  2024-01-01, 3 hours together.
\<close>

theorem day_total_can_exceed_capacity:
  "\<exists>ts C today d. 2 \<le> length ts \<and> 0 < C \<and>
      2 \<le> length (filter (\<lambda>e. entry_date e = d) (generate ts C today)) \<and>
      C < hours_on d (generate ts C today)"
proof -
  have g: "generate [essay, history] 2 738886 =
      task_entries 738886 2 essay @ task_entries 738886 2 history"
    by (simp add: generate_concat tasks_sorted_def essay_def history_def Task_def)
  have h: "task_entries 738886 2 history =
     map (\<lambda>d. \<lparr>entry_date = d, task_name = ''History'', allocated_hours = 3 / 2\<rparr>)
       [738886, 738887, 738888, 738889]"
  proof -
    have u: "[738886..738889] = [738886, 738887, 738888, 738889 :: int]"
      by (simp add: upto_rec1)
    have a: "daily_allocation 738886 history = 3 / 2"
      by (simp add: daily_allocation_def total_days_def remaining_hours_def history_def Task_def)
    show ?thesis
      by (simp add: task_entries_eq a) (simp add: history_def Task_def u)
  qed
  have "2 \<le> length [essay, history] \<and> (0::real) < 2 \<and>
      2 \<le> length (filter (\<lambda>e. entry_date e = 738886) (generate [essay, history] 2 738886)) \<and>
      2 < hours_on 738886 (generate [essay, history] 2 738886)"
    by (simp add: g h essay_entries hours_on_def)
  then show ?thesis by blast
qed

section \<open>The grouped display\<close>

lemma keys_setdefault_append:
  "map fst (setdefault_append k v g) = (if k \<in> set (map fst g) then map fst g else map fst g @ [k])"
proof (induction g)
  case Nil
  then show ?case by simp
next
  case (Cons p g)
  obtain k' vs where p: "p = (k', vs)" by (cases p)
  show ?case
  proof (cases "k' = k")
    case True
    with p show ?thesis by simp
  next
    case False
    with p Cons.IH show ?thesis by (cases "k \<in> set (map fst g)") simp_all
  qed
qed

lemma map_of_setdefault_append:
  "map_of (setdefault_append k v g) k' =
     (if k' = k then Some ((case map_of g k of None \<Rightarrow> [] | Some vs \<Rightarrow> vs) @ [v]) else map_of g k')"
  by (induction g) (auto split: option.splits)

lemma filter_date_empty:
  "k \<notin> set (map entry_date sched) \<Longrightarrow> filter (\<lambda>e. entry_date e = k) sched = []"
  by (induction sched) auto

lemma group_inv_step:
  assumes "group_inv pre g"
  shows "group_inv (pre @ [e]) (setdefault_append (entry_date e) (desc_of e) g)"
proof -
  from assms have d: "distinct (map fst g)"
    and k: "set (map fst g) = set (map entry_date pre)"
    and m: "\<And>k. map_of g k = (if k \<in> set (map entry_date pre) then Some (map desc_of (filter (\<lambda>e. entry_date e = k) pre)) else None)"
    by (simp_all add: group_inv_def)
  have 1: "distinct (map fst (setdefault_append (entry_date e) (desc_of e) g))"
    using d by (simp add: keys_setdefault_append)
  have 2: "set (map fst (setdefault_append (entry_date e) (desc_of e) g)) = set (map entry_date (pre @ [e]))"
    using k by (auto simp add: keys_setdefault_append)
  have 3: "map_of (setdefault_append (entry_date e) (desc_of e) g) k' =
      (if k' \<in> set (map entry_date (pre @ [e])) then Some (map desc_of (filter (\<lambda>x. entry_date x = k') (pre @ [e]))) else None)" for k'
  proof (cases "k' = entry_date e")
    case True
    then show ?thesis
      by (simp add: map_of_setdefault_append m filter_date_empty)
  next
    case False
    then show ?thesis
      by (simp add: map_of_setdefault_append m)
  qed
  show ?thesis
    unfolding group_inv_def using 1 2 3 by blast
qed

lemma fold_group_inv:
  "group_inv pre g \<Longrightarrow>
   group_inv (pre @ sched) (fold (\<lambda>e g. setdefault_append (entry_date e) (desc_of e) g) sched g)"
proof (induction sched arbitrary: pre g)
  case Nil
  then show ?case by simp
next
  case (Cons e sched)
  from Cons.IH[OF group_inv_step[OF Cons.prems, of e]] show ?case by simp
qed

lemma grouped_inv: "group_inv sched (grouped sched)"
proof -
  have "group_inv [] []" by (simp add: group_inv_def)
  from fold_group_inv[OF this, of sched] show ?thesis by (simp add: grouped_def)
qed

lemma date_groups_eq:
  "date_groups sched =
     map (\<lambda>k. (k, map desc_of (filter (\<lambda>e. entry_date e = k) sched)))
         (sort (remdups (map entry_date sched)))"
proof -
  let ?g = "grouped sched"
  from grouped_inv[of sched] have d: "distinct (map fst ?g)"
    and k: "set (map fst ?g) = set (map entry_date sched)"
    and m: "\<And>k. map_of ?g k = (if k \<in> set (map entry_date sched) then Some (map desc_of (filter (\<lambda>e. entry_date e = k) sched)) else None)"
    by (simp_all add: group_inv_def)
  have s: "sort (map fst ?g) = sort (remdups (map entry_date sched))"
  proof (rule sorted_distinct_set_unique)
    show "sorted (sort (map fst ?g))" by simp
    show "distinct (sort (map fst ?g))" using d by simp
    show "sorted (sort (remdups (map entry_date sched)))" by simp
    show "distinct (sort (remdups (map entry_date sched)))" by simp
    show "set (sort (map fst ?g)) = set (sort (remdups (map entry_date sched)))" using k by simp
  qed
  have c: "concat (map (\<lambda>k. case map_of ?g k of None \<Rightarrow> [] | Some ds \<Rightarrow> [(k, ds)]) ks) =
        map (\<lambda>k. (k, map desc_of (filter (\<lambda>e. entry_date e = k) sched))) ks"
    if "set ks \<subseteq> set (map entry_date sched)" for ks
    using that by (induction ks) (simp_all add: m)
  show ?thesis
    unfolding date_groups_def Let_def s
    by (rule c) simp
qed

lemma filter_eq_upto:
  "filter (\<lambda>x. x = d) [a..b] = (if a \<le> d \<and> d \<le> b then [d] else [])"
proof (induction a b rule: upto.induct)
  case (1 i j)
  show ?case
  proof (cases "i \<le> j")
    case True
    with 1 show ?thesis by (subst upto_rec1) auto
  next
    case False
    then show ?thesis by simp
  qed
qed

lemma filter_task_entries:
  "map desc_of (filter (\<lambda>e. entry_date e = d) (task_entries today C t)) =
     (if today \<le> d \<and> d \<le> due_date t then [(name t, min (daily_allocation today t) C)] else [])"
proof -
  have "filter (\<lambda>e. entry_date e = d) (task_entries today C t) =
      map (\<lambda>d. \<lparr>entry_date = d, task_name = name t,
                allocated_hours = min (daily_allocation today t) C\<rparr>) (filter (\<lambda>x. x = d) [today..due_date t])"
    by (simp add: task_entries_eq filter_map comp_def)
  then show ?thesis by (simp add: filter_eq_upto desc_of_def)
qed

lemma group_in_task_order:
  "map desc_of (filter (\<lambda>e. entry_date e = d) (concat (map (task_entries today C) ts))) =
     map (\<lambda>t. (name t, min (daily_allocation today t) C))
       (filter (\<lambda>t. today \<le> d \<and> d \<le> due_date t) ts)"
  by (induction ts) (simp_all add: filter_task_entries)

lemma sorted_date_groups: "sorted (map fst (date_groups sched)) \<and> distinct (map fst (date_groups sched))"
  by (simp add: date_groups_eq comp_def)

lemma date_groups_example:
  "date_groups (generate [essay, maths] 2 738886) =
    [(738886, [(''Maths'', 2), (''Essay'', 3 / 2)]),
     (738887, [(''Maths'', 2), (''Essay'', 3 / 2)]),
     (738888, [(''Essay'', 3 / 2)]),
     (738889, [(''Essay'', 3 / 2)])]"
  by (simp add: date_groups_def grouped_def generate_concat tasks_sorted_def task_entries_eq
        essay_def maths_def Task_def upto_rec1 daily_allocation_def total_days_def
        remaining_hours_def desc_of_def)

text \<open>
  C5. The tasks are processed in ascending order of due date, by a stable sort: the
  sorted list is ordered by due date, is a permutation of the task list, and keeps the
  input order among tasks with the same due date; the schedule is the concatenation of
  the tasks' entries in that order. The grouped display of any schedule lists each date
  once, in ascending order, with the descriptions of that date's entries in the order in
  which they were emitted; for the schedule \<open>generate\<close> builds, a date's group lists the
  tasks scheduled that day in sorted-task order.
\<close>

theorem processing_and_display_order:
  "sorted (map due_date (tasks_sorted ts)) \<and>
   mset (tasks_sorted ts) = mset ts \<and>
   (\<forall>k. filter (\<lambda>t. due_date t = k) (tasks_sorted ts) = filter (\<lambda>t. due_date t = k) ts) \<and>
   generate ts C today = concat (map (task_entries today C) (tasks_sorted ts)) \<and>
   sorted (map fst (date_groups sched)) \<and>
   distinct (map fst (date_groups sched)) \<and>
   set (map fst (date_groups sched)) = set (map entry_date sched) \<and>
   (\<forall>(d, ds) \<in> set (date_groups sched). ds = map desc_of (filter (\<lambda>e. entry_date e = d) sched)) \<and>
   (\<forall>(d, ds) \<in> set (date_groups (generate ts C today)).
      ds = map (\<lambda>t. (name t, min (daily_allocation today t) C))
             (filter (\<lambda>t. today \<le> d \<and> d \<le> due_date t) (tasks_sorted ts)))"
proof (intro conjI allI)
  show "sorted (map due_date (tasks_sorted ts))"
    by (simp add: tasks_sorted_def)
  show "mset (tasks_sorted ts) = mset ts"
    by (simp add: tasks_sorted_def)
  show "filter (\<lambda>t. due_date t = k) (tasks_sorted ts) = filter (\<lambda>t. due_date t = k) ts" for k
    by (simp add: tasks_sorted_def sort_key_stable)
  show "generate ts C today = concat (map (task_entries today C) (tasks_sorted ts))"
    by (rule generate_concat)
  show "sorted (map fst (date_groups sched))" "distinct (map fst (date_groups sched))"
    by (simp_all add: sorted_date_groups)
  show "set (map fst (date_groups sched)) = set (map entry_date sched)"
    by (simp add: date_groups_eq comp_def)
  show "\<forall>(d, ds) \<in> set (date_groups sched). ds = map desc_of (filter (\<lambda>e. entry_date e = d) sched)"
    by (auto simp: date_groups_eq)
  show "\<forall>(d, ds) \<in> set (date_groups (generate ts C today)).
      ds = map (\<lambda>t. (name t, min (daily_allocation today t) C))
             (filter (\<lambda>t. today \<le> d \<and> d \<le> due_date t) (tasks_sorted ts))"
    by (auto simp: date_groups_eq generate_concat group_in_task_order)
qed

theorem processing_and_display_order_witness:
  "tasks_sorted [essay, maths] = [maths, essay] \<and>
   (738886, [(''Maths'', 2), (''Essay'', 3 / 2)]) \<in> set (date_groups (generate [essay, maths] 2 738886)) \<and>
   [(''Maths'', 2), (''Essay'', 3 / 2)] =
      map (\<lambda>t. (name t, min (daily_allocation 738886 t) 2))
        (filter (\<lambda>t. 738886 \<le> (738886 :: int) \<and> 738886 \<le> due_date t) (tasks_sorted [essay, maths])) \<and>
   map fst (date_groups (generate [essay, maths] 2 738886)) = [738886, 738887, 738888, 738889]"
proof (intro conjI)
  show "tasks_sorted [essay, maths] = [maths, essay]"
    by (simp add: tasks_sorted_def essay_def maths_def Task_def)
  show m: "(738886, [(''Maths'', 2), (''Essay'', 3 / 2)]) \<in> set (date_groups (generate [essay, maths] 2 738886))"
    by (simp add: date_groups_example)
  have "\<forall>(d, ds) \<in> set (date_groups (generate [essay, maths] 2 738886)).
      ds = map (\<lambda>t. (name t, min (daily_allocation 738886 t) 2))
             (filter (\<lambda>t. 738886 \<le> d \<and> d \<le> due_date t) (tasks_sorted [essay, maths]))"
    using processing_and_display_order [of "[essay, maths]" 2 738886 "[]"]
    by (elim conjE) assumption
  from bspec [OF this m]
  show "[(''Maths'', 2), (''Essay'', 3 / 2)] =
      map (\<lambda>t. (name t, min (daily_allocation 738886 t) 2))
        (filter (\<lambda>t. 738886 \<le> (738886 :: int) \<and> 738886 \<le> due_date t) (tasks_sorted [essay, maths]))"
    by (simp only: prod.case)
  show "map fst (date_groups (generate [essay, maths] 2 738886)) = [738886, 738887, 738888, 738889]"
    by (simp add: date_groups_example)
qed

section \<open>Claims about the task form\<close>

lemma strip_example: "strip ''Essay'' = ''Essay''" "strip ''-5'' = ''-5''" "strip ''2024-01-04'' = ''2024-01-04''"
  by (simp_all add: strip_def isspace_def)

lemma add_task_rejects:
  "strip (task_name_var s) = [] \<or> strip (task_hours_var s) = [] \<or> strip (task_due_var s) = [] \<or>
   py_float B (strip (task_hours_var s)) = None \<or> strptime B (strip (task_due_var s)) = None \<Longrightarrow>
   \<exists>m. m \<in> {Warning_incomplete, Warning_hours_format, Warning_date_format} \<and> add_task B s = (Some m, s)"
  by (auto simp add: add_task_def Let_def split: option.splits)

text \<open>
  C7. The claim: \<^verbatim>\<open>add_task\<close> fails, and appends no task, when a field is empty, the
  hours are not a number, the hours are not positive, or the date is malformed. The code
  rejects the empty field, the non-numeric hours and the malformed date (lemma
  \<open>add_task_rejects\<close>), but it never compares the hours with zero: whenever the three
  fields are non-empty, \<^verbatim>\<open>float\<close> reads the hours as some \<open>h \<le> 0\<close> and the date parses,
  the task is appended, the row is added to the list box and the fields are cleared.
\<close>

theorem add_task_accepts_nonpositive_hours:
  "strip (task_name_var s) \<noteq> [] \<and> strip (task_hours_var s) \<noteq> [] \<and> strip (task_due_var s) \<noteq> [] \<and>
   py_float B (strip (task_hours_var s)) = Some h \<and> h \<le> 0 \<and>
   strptime B (strip (task_due_var s)) = Some d \<longrightarrow>
   add_task B s =
     (None, s\<lparr>tasks := tasks s @ [Task (strip (task_name_var s)) h d],
               task_listbox := task_listbox s @ [Task (strip (task_name_var s)) h d],
               task_name_var := [], task_hours_var := [], task_due_var := []\<rparr>)"
  by (simp add: add_task_def Let_def)

theorem add_task_accepts_nonpositive_hours_witness:
  "strip ''Essay'' \<noteq> [] \<and> strip ''-5'' \<noteq> [] \<and> strip ''2024-01-04'' \<noteq> [] \<and>
   py_float example_builtins (strip ''-5'') = Some (-5) \<and> (-5 :: real) \<le> 0 \<and>
   strptime example_builtins (strip ''2024-01-04'') = Some 738889 \<and>
   fst (add_task example_builtins (form ''Essay'' ''-5'' ''2024-01-04'')) = None \<and>
   tasks (snd (add_task example_builtins (form ''Essay'' ''-5'' ''2024-01-04''))) =
     [Task ''Essay'' (-5) 738889]"
  using add_task_accepts_nonpositive_hours
    [of "form ''Essay'' ''-5'' ''2024-01-04''" example_builtins "-5" 738889]
  by (simp add: form_def strip_example example_builtins_def initial_app_def)

section \<open>Claims about schedule generation in the running program\<close>

lemma add_task_keeps_schedule: "schedule (snd (add_task B s)) = schedule s"
  by (simp add: add_task_def Let_def split: option.splits)

lemma add_task_tasks: "tasks (snd (add_task B s)) = [] \<Longrightarrow> tasks s = []"
  by (simp add: add_task_def Let_def split: option.splits if_splits)

lemma generate_schedule_tasks: "tasks (snd (generate_schedule B a today s)) = tasks s"
  by (simp add: generate_schedule_def fill_schedule_def Let_def split: option.splits)

lemma generate_schedule_empty: "tasks s = [] \<Longrightarrow> generate_schedule B a today s = (Some Info_add_tasks_first, s)"
  by (simp add: generate_schedule_def)

lemma start_keeps_tasks:
  "tasks (fst (snd (start_focus_session B a (s, ths)))) = tasks s \<and>
   schedule (fst (snd (start_focus_session B a (s, ths)))) = schedule s"
  by (simp add: start_focus_session_def Let_def split: option.splits)

lemma countdown_step_keeps_tasks:
  "tasks (fst (countdown_step now (s, th))) = tasks s \<and>
   schedule (fst (countdown_step now (s, th))) = schedule s"
  by (simp add: countdown_step_def Let_def split: location.splits)

lemma apply_event_no_tasks_no_schedule:
  "no_tasks_no_schedule c \<Longrightarrow> no_tasks_no_schedule (apply_event B e c)"
proof (cases c)
  case (Pair s ths)
  assume inv: "no_tasks_no_schedule c"
  show ?thesis
  proof (cases e)
    case (Enter_fields a b d)
    with Pair inv show ?thesis by (simp add: no_tasks_no_schedule_def)
  next
    case Add_task
    with Pair inv show ?thesis
      using add_task_tasks [of B s] by (auto simp add: no_tasks_no_schedule_def add_task_keeps_schedule)
  next
    case (Generate_schedule a today)
    with Pair inv show ?thesis
      by (cases "tasks s = []")
         (simp_all add: no_tasks_no_schedule_def generate_schedule_tasks generate_schedule_empty)
  next
    case (Start_focus_session a)
    with Pair inv show ?thesis
      using start_keeps_tasks [of B a s ths] by (simp add: no_tasks_no_schedule_def)
  next
    case (Countdown_step i now)
    with Pair inv show ?thesis
      using countdown_step_keeps_tasks [of now s "ths ! i"]
      by (auto simp add: no_tasks_no_schedule_def split: prod.splits)
  qed
qed

lemma run_no_tasks_no_schedule:
  "no_tasks_no_schedule c \<Longrightarrow> no_tasks_no_schedule (run B evs c)"
  unfolding run_def
  by (induction evs arbitrary: c) (simp_all add: apply_event_no_tasks_no_schedule)

lemma initial_no_tasks_no_schedule: "no_tasks_no_schedule initial"
  by (simp add: no_tasks_no_schedule_def initial_def initial_app_def)

text \<open>
  C8. The scheduler on the empty task list yields the empty schedule. In the program,
  \<^verbatim>\<open>generate_schedule\<close> on an empty task list shows the notice "add tasks first" and
  returns before \<^verbatim>\<open>self.schedule.clear()\<close>; since no operation removes a task, in every
  state the program can reach with an empty task list the schedule is empty already, so
  it is empty after the call. With tasks and a known daily capacity the call shows no
  message and the schedule is exactly what the scheduler computes: nothing of an earlier
  schedule survives.
\<close>

theorem empty_task_list_yields_empty_schedule:
  "generate [] C today = [] \<and>
   (tasks (fst (run B evs initial)) = [] \<longrightarrow>
      generate_schedule B answer today (fst (run B evs initial)) =
        (Some Info_add_tasks_first, fst (run B evs initial)) \<and>
      schedule (snd (generate_schedule B answer today (fst (run B evs initial)))) = []) \<and>
   (tasks s \<noteq> [] \<and> daily_hours s = Some h \<longrightarrow>
      fst (generate_schedule B answer today s) = None \<and>
      schedule (snd (generate_schedule B answer today s)) = generate (tasks s) h today)"
proof (intro conjI impI)
  show "generate [] C today = []"
    by (simp add: generate_def tasks_sorted_def)
next
  assume e: "tasks (fst (run B evs initial)) = []"
  then show g: "generate_schedule B answer today (fst (run B evs initial)) =
        (Some Info_add_tasks_first, fst (run B evs initial))"
    by (rule generate_schedule_empty)
  from run_no_tasks_no_schedule [OF initial_no_tasks_no_schedule, of B evs] e
  have "schedule (fst (run B evs initial)) = []"
    by (simp add: no_tasks_no_schedule_def)
  with g show "schedule (snd (generate_schedule B answer today (fst (run B evs initial)))) = []"
    by simp
next
  assume "tasks s \<noteq> [] \<and> daily_hours s = Some h"
  then show "fst (generate_schedule B answer today s) = None"
    and "schedule (snd (generate_schedule B answer today s)) = generate (tasks s) h today"
    by (simp_all add: generate_schedule_def fill_schedule_def Let_def)
qed

theorem empty_task_list_yields_empty_schedule_witness:
  "tasks (fst (run example_builtins [Enter_fields ''Essay'' ''six'' ''2024-01-04'', Add_task,
                  Start_focus_session (Some ''25'')] initial)) = [] \<and>
   schedule (snd (generate_schedule example_builtins (Some ''2'') 738886
      (fst (run example_builtins [Enter_fields ''Essay'' ''six'' ''2024-01-04'', Add_task,
                  Start_focus_session (Some ''25'')] initial)))) = [] \<and>
   tasks (initial_app\<lparr>tasks := [essay], daily_hours := Some 2\<rparr>) \<noteq> [] \<and>
   daily_hours (initial_app\<lparr>tasks := [essay], daily_hours := Some 2\<rparr>) = Some 2 \<and>
   schedule (snd (generate_schedule example_builtins (Some ''2'') 738886
      (initial_app\<lparr>tasks := [essay], daily_hours := Some 2\<rparr>))) = generate [essay] 2 738886"
  using empty_task_list_yields_empty_schedule
    [of 2 738886 example_builtins
        "[Enter_fields ''Essay'' ''six'' ''2024-01-04'', Add_task, Start_focus_session (Some ''25'')]"
        "Some ''2''" "initial_app\<lparr>tasks := [essay], daily_hours := Some 2\<rparr>" 2]
  by (simp add: run_def initial_def initial_app_def add_task_def strip_def isspace_def
      example_builtins_def start_focus_session_def Let_def)

section \<open>Claims about the focus timer\<close>

lemma focusing_eq:
  "focusing = (initial_app\<lparr>timer_running := True, focus_thread := Some 0\<rparr>, [new_countdown 1500])"
  by (simp add: focusing_def start_focus_session_def initial_def initial_app_def example_builtins_def)

text \<open>
  C6. Whenever \<^verbatim>\<open>timer_running\<close> is set, \<^verbatim>\<open>start_focus_session\<close> shows the notice
  "already focusing" and changes nothing: the application state (the flag, the points,
  the labels) and every countdown thread (its end time and position) are as before, and
  no thread is added.
\<close>

theorem start_while_running_is_rejected:
  "timer_running s \<Longrightarrow>
     start_focus_session B answer (s, ths) = (Some Info_already_focusing, (s, ths)) \<and>
     apply_event B (Start_focus_session answer) (s, ths) = (s, ths)"
  by (simp add: start_focus_session_def)

theorem start_while_running_is_rejected_witness:
  "timer_running (fst focusing) \<and>
   start_focus_session example_builtins (Some ''25'') focusing = (Some Info_already_focusing, focusing) \<and>
   snd focusing = [new_countdown 1500] \<and> points (fst focusing) = 0"
  using start_while_running_is_rejected
    [of "fst focusing" example_builtins "Some ''25''" "snd focusing"]
  by (simp add: focusing_eq initial_app_def)










































end
